theory Spec2Isabelle
  imports Main "HOL-Library.AList" "HOL-Library.Sublist"
begin

section \<open>The PowerBI source configuration (powerbi/config.py)\<close>

text \<open>
  The module declares a pydantic model, \<open>PowerBiDashboardSourceConfig\<close>, with one field
  validator (\<open>map_data_platform\<close>), one root validator that runs on the raw input
  (\<open>raise_error_for_dataset_type_mapping\<close>, \<open>pre=True\<close>) and one root validator that runs on
  the validated values (\<open>workspace_id_backward_compatibility\<close>, \<open>pre=False\<close>).
  The calls to \<open>logger.warning\<close> change no value and are left out.
\<close>

subsection \<open>Raw input and errors\<close>

text \<open>
  A raw settings mapping has string keys and JSON-like values. The top-level mapping is read
  by key only and is a map; a nested dictionary is iterated and keeps its insertion order,
  so it is an association list.
\<close>

datatype raw =
    RNone
  | RStr string
  | RInt int
  | RBool bool
  | RList "raw list"
  | RDict "(string \<times> raw) list"

type_synonym raw_mapping = "string \<rightharpoonup> raw"

text \<open>
  The error of one location: a required field that is absent, a value that has not the
  declared type (with the name of the expected type), or the \<open>ValueError\<close> a validator
  raises (with its message). A failed construction carries the list of located errors.
\<close>

datatype error_kind =
    MissingError
  | TypeError string
  | ValueError string

datatype validation_error = ValidationError "(string \<times> error_kind) list"

definition ROOT_KEY :: string where
  "ROOT_KEY = ''__root__''"

subsection \<open>Constant, DataPlatformPair, SupportedDataPlatform\<close>

definition PLATFORM_NAME :: string where
  "PLATFORM_NAME = ''powerbi''"

record DataPlatformPair =
  datahub_data_platform_name :: string
  powerbi_data_platform_name :: string

datatype SupportedDataPlatform =
    POSTGRES_SQL
  | ORACLE
  | SNOWFLAKE
  | MS_SQL
  | GOOGLE_BIGQUERY
  | AMAZON_REDSHIFT

fun platform_value :: "SupportedDataPlatform \<Rightarrow> DataPlatformPair" where
  "platform_value POSTGRES_SQL =
     \<lparr>datahub_data_platform_name = ''postgres'', powerbi_data_platform_name = ''PostgreSQL''\<rparr>"
| "platform_value ORACLE =
     \<lparr>datahub_data_platform_name = ''oracle'', powerbi_data_platform_name = ''Oracle''\<rparr>"
| "platform_value SNOWFLAKE =
     \<lparr>datahub_data_platform_name = ''snowflake'', powerbi_data_platform_name = ''Snowflake''\<rparr>"
| "platform_value MS_SQL =
     \<lparr>datahub_data_platform_name = ''mssql'', powerbi_data_platform_name = ''Sql''\<rparr>"
| "platform_value GOOGLE_BIGQUERY =
     \<lparr>datahub_data_platform_name = ''bigquery'', powerbi_data_platform_name = ''GoogleBigQuery''\<rparr>"
| "platform_value AMAZON_REDSHIFT =
     \<lparr>datahub_data_platform_name = ''redshift'', powerbi_data_platform_name = ''AmazonRedshift''\<rparr>"

text \<open>The members of the enumeration, in the order of their declaration.\<close>

definition SupportedDataPlatform_members :: "SupportedDataPlatform list" where
  "SupportedDataPlatform_members =
     [POSTGRES_SQL, ORACLE, SNOWFLAKE, MS_SQL, GOOGLE_BIGQUERY, AMAZON_REDSHIFT]"

text \<open>
  \<open>default_for_dataset_type_mapping\<close>: the loop stores one entry per member,
  \<open>dict_[powerbi name] = datahub name\<close>.
\<close>

fun default_loop ::
  "(string \<times> string) list \<Rightarrow> SupportedDataPlatform list \<Rightarrow> (string \<times> string) list" where
  "default_loop dict [] = dict"
| "default_loop dict (item # items) =
     default_loop
       (AList.update (powerbi_data_platform_name (platform_value item))
          (datahub_data_platform_name (platform_value item)) dict)
       items"

definition default_for_dataset_type_mapping :: "(string \<times> string) list" where
  "default_for_dataset_type_mapping = default_loop [] SupportedDataPlatform_members"

subsection \<open>AllowDenyPattern and PlatformDetail\<close>

text \<open>
  Modelled from the spec: the class \<open>AllowDenyPattern\<close> is imported from
  \<open>datahub.configuration.common\<close>, which is not part of the source at hand. The spec gives
  it as a pair of ordered sequences of regular-expression strings, \<open>allow\<close> and \<open>deny\<close>,
  whose default is "allow everything" (an \<open>allow\<close> list holding the single pattern \<open>.*\<close>,
  an empty \<open>deny\<close> list), with structural equality.
\<close>

record AllowDenyPattern =
  allow :: "string list"
  deny :: "string list"

definition allow_all :: AllowDenyPattern where
  "allow_all = \<lparr>allow = [''.*''], deny = []\<rparr>"

text \<open>
  Modelled from the spec: the constructor call \<open>AllowDenyPattern(allow=xs)\<close>; the \<open>deny\<close>
  list that is not given takes its default, the empty list.
\<close>

definition AllowDenyPattern_of_allow :: "string list \<Rightarrow> AllowDenyPattern" where
  "AllowDenyPattern_of_allow xs = \<lparr>allow = xs, deny = []\<rparr>"

text \<open>
  \<open>PlatformDetail\<close> has an optional platform instance and an environment. Its default
  environment, \<open>DEFAULT_ENV\<close>, is imported.
\<close>

record PlatformDetail =
  pd_platform_instance :: "string option"
  pd_env :: string

text \<open>
  Modelled from the spec: \<open>DEFAULT_ENV\<close> of \<open>datahub.configuration.source_common\<close> is not
  part of the source at hand; the spec gives the default environment as \<open>PROD\<close>.
\<close>

definition DEFAULT_ENV :: string where
  "DEFAULT_ENV = ''PROD''"

subsection \<open>Per-field type coercion\<close>

text \<open>
  Modelled from the spec: the per-field type coercion is done by the schema library
  (pydantic), which is not part of the source at hand. The spec says that a raw value is
  turned into a value of the declared type or rejected with a type error that names the
  field and the expected type. Here a raw value of the declared shape is accepted as it is
  and every other raw value is rejected.
\<close>

fun str_validator :: "raw \<Rightarrow> error_kind + string" where
  "str_validator (RStr s) = Inr s"
| "str_validator _ = Inl (TypeError ''str'')"

fun int_validator :: "raw \<Rightarrow> error_kind + int" where
  "int_validator (RInt i) = Inr i"
| "int_validator _ = Inl (TypeError ''int'')"

fun bool_validator :: "raw \<Rightarrow> error_kind + bool" where
  "bool_validator (RBool b) = Inr b"
| "bool_validator _ = Inl (TypeError ''bool'')"

text \<open>\<open>Optional[T]\<close>: \<open>None\<close> is accepted and stays \<open>None\<close>.\<close>

definition optional_validator :: "(raw \<Rightarrow> error_kind + 'a) \<Rightarrow> raw \<Rightarrow> error_kind + 'a option" where
  "optional_validator validator v =
     (if v = RNone then Inr None
      else (case validator v of Inl e \<Rightarrow> Inl e | Inr x \<Rightarrow> Inr (Some x)))"

text \<open>\<open>List[T]\<close>: every item is validated, the first error is the error of the list.\<close>

fun items_validator :: "(raw \<Rightarrow> error_kind + 'a) \<Rightarrow> raw list \<Rightarrow> error_kind + 'a list" where
  "items_validator validator [] = Inr []"
| "items_validator validator (v # vs) =
     (case validator v of
        Inl e \<Rightarrow> Inl e
      | Inr x \<Rightarrow>
          (case items_validator validator vs of
             Inl e \<Rightarrow> Inl e
           | Inr xs \<Rightarrow> Inr (x # xs)))"

definition list_validator :: "(raw \<Rightarrow> error_kind + 'a) \<Rightarrow> raw \<Rightarrow> error_kind + 'a list" where
  "list_validator validator v =
     (case v of RList vs \<Rightarrow> items_validator validator vs | _ \<Rightarrow> Inl (TypeError ''list''))"

text \<open>\<open>Dict[str, T]\<close>: every value is validated, the keys and their order are kept.\<close>

fun entries_validator ::
  "(raw \<Rightarrow> error_kind + 'a) \<Rightarrow> (string \<times> raw) list \<Rightarrow> error_kind + (string \<times> 'a) list" where
  "entries_validator validator [] = Inr []"
| "entries_validator validator ((k, v) # kvs) =
     (case validator v of
        Inl e \<Rightarrow> Inl e
      | Inr x \<Rightarrow>
          (case entries_validator validator kvs of
             Inl e \<Rightarrow> Inl e
           | Inr xs \<Rightarrow> Inr ((k, x) # xs)))"

definition dict_validator ::
  "(raw \<Rightarrow> error_kind + 'a) \<Rightarrow> raw \<Rightarrow> error_kind + (string \<times> 'a) list" where
  "dict_validator validator v =
     (case v of RDict kvs \<Rightarrow> entries_validator validator kvs | _ \<Rightarrow> Inl (TypeError ''dict''))"

text \<open>A nested model is given as a nested mapping; a key that is absent takes its default.\<close>

definition key_validator ::
  "(string \<times> raw) list \<Rightarrow> string \<Rightarrow> (raw \<Rightarrow> error_kind + 'a) \<Rightarrow> 'a \<Rightarrow> error_kind + 'a" where
  "key_validator kvs key validator dflt =
     (case map_of kvs key of None \<Rightarrow> Inr dflt | Some v \<Rightarrow> validator v)"

definition AllowDenyPattern_validator :: "raw \<Rightarrow> error_kind + AllowDenyPattern" where
  "AllowDenyPattern_validator v =
     (case v of
        RDict kvs \<Rightarrow>
          (case key_validator kvs ''allow'' (list_validator str_validator) (allow allow_all) of
             Inl e \<Rightarrow> Inl e
           | Inr a \<Rightarrow>
               (case key_validator kvs ''deny'' (list_validator str_validator) (deny allow_all) of
                  Inl e \<Rightarrow> Inl e
                | Inr d \<Rightarrow> Inr \<lparr>allow = a, deny = d\<rparr>))
      | _ \<Rightarrow> Inl (TypeError ''AllowDenyPattern''))"

definition PlatformDetail_validator :: "raw \<Rightarrow> error_kind + PlatformDetail" where
  "PlatformDetail_validator v =
     (case v of
        RDict kvs \<Rightarrow>
          (case key_validator kvs ''platform_instance'' (optional_validator str_validator) None of
             Inl e \<Rightarrow> Inl e
           | Inr p \<Rightarrow>
               (case key_validator kvs ''env'' str_validator DEFAULT_ENV of
                  Inl e \<Rightarrow> Inl e
                | Inr e \<Rightarrow> Inr \<lparr>pd_platform_instance = p, pd_env = e\<rparr>))
      | _ \<Rightarrow> Inl (TypeError ''PlatformDetail''))"

text \<open>
  \<open>Union[Dict[str, str], Dict[str, PlatformDetail]]\<close>: the first member of the union that
  accepts the value gives the result.
\<close>

type_synonym dataset_type_mapping_value =
  "(string \<times> string) list + (string \<times> PlatformDetail) list"

definition dataset_type_mapping_coerce :: "raw \<Rightarrow> error_kind + dataset_type_mapping_value" where
  "dataset_type_mapping_coerce v =
     (case dict_validator str_validator v of
        Inr d \<Rightarrow> Inr (Inl d)
      | Inl _ \<Rightarrow>
          (case dict_validator PlatformDetail_validator v of
             Inr d \<Rightarrow> Inr (Inr d)
           | Inl e \<Rightarrow> Inl e))"

subsection \<open>The values of a configuration\<close>

text \<open>
  The dictionary \<open>values\<close> that the schema library fills field by field, hands to the root
  validators that run after the fields, and that becomes the configuration object. Every
  entry is optional: \<open>None\<close> says that the key is not in the dictionary. For the two fields
  declared \<open>Optional[...]\<close> the entry, when present, is itself optional (Python's \<open>None\<close>).
  The stateful-ingestion configuration is passed through as it was given.
\<close>

record PowerBiDashboardSourceConfig =
  platform_name :: "string option"
  platform_urn :: "string option"
  tenant_id :: "string option"
  workspace_id :: "string option option"
  workspace_id_pattern :: "AllowDenyPattern option"
  dataset_type_mapping :: "dataset_type_mapping_value option"
  server_to_platform_instance :: "(string \<times> PlatformDetail) list option"
  client_id :: "string option"
  client_secret :: "string option"
  scan_timeout :: "int option"
  extract_ownership :: "bool option"
  extract_reports :: "bool option"
  extract_lineage :: "bool option"
  extract_endorsements_to_tags :: "bool option"
  extract_workspaces_to_containers :: "bool option"
  native_query_parsing :: "bool option"
  convert_urns_to_lowercase :: "bool option"
  convert_lineage_urns_to_lowercase :: "bool option"
  stateful_ingestion :: "raw option option"
  admin_apis_only :: "bool option"
  platform_instance :: "string option option"

subsection \<open>The validators of the class\<close>

text \<open>
  \<open>map_data_platform\<close>, the validator of \<open>dataset_type_mapping\<close>: when the key
  \<open>PostgreSql\<close> is in the dictionary, its value is read, the key is deleted and the value is
  stored under \<open>PostgreSQL\<close>. Storing under a key that is already there replaces its value
  in place; storing under a new key appends the entry.
\<close>

definition map_data_platform :: "(string \<times> 'v) list \<Rightarrow> (string \<times> 'v) list" where
  "map_data_platform value =
     (case map_of value ''PostgreSql'' of
        None \<Rightarrow> value
      | Some platform_name' \<Rightarrow>
          AList.update ''PostgreSQL'' platform_name' (AList.delete ''PostgreSql'' value))"

text \<open>The validator on a value of the union type: it acts on whichever dictionary it is.\<close>

definition map_data_platform_union :: "dataset_type_mapping_value \<Rightarrow> dataset_type_mapping_value" where
  "map_data_platform_union value = map_sum map_data_platform map_data_platform value"

text \<open>
  \<open>values.get(key)\<close> on the raw input: \<open>None\<close> when the key is absent, its value otherwise.
\<close>

definition raw_get :: "raw_mapping \<Rightarrow> string \<Rightarrow> raw" where
  "raw_get values key = (case values key of None \<Rightarrow> RNone | Some v \<Rightarrow> v)"

definition conflict_message :: string where
  "conflict_message = ''dataset_type_mapping is deprecated. Use server_to_platform_instance only.''"

text \<open>
  \<open>raise_error_for_dataset_type_mapping\<close>, a root validator with \<open>pre=True\<close>: it reads the
  raw input, before any default is filled in.
\<close>

definition raise_error_for_dataset_type_mapping :: "raw_mapping \<Rightarrow> error_kind + raw_mapping" where
  "raise_error_for_dataset_type_mapping values =
     (if raw_get values ''dataset_type_mapping'' \<noteq> RNone
         \<and> raw_get values ''server_to_platform_instance'' \<noteq> RNone
      then Inl (ValueError conflict_message)
      else Inr values)"

text \<open>
  Python's truth value of an optional string: \<open>None\<close> and the empty string are false.
  \<open>values.get("workspace_id")\<close> is \<open>None\<close> both for an absent key and for a stored \<open>None\<close>.
\<close>

definition get_workspace_id :: "PowerBiDashboardSourceConfig \<Rightarrow> string option" where
  "get_workspace_id values = (case workspace_id values of None \<Rightarrow> None | Some w \<Rightarrow> w)"

fun truthy :: "string option \<Rightarrow> bool" where
  "truthy None = False"
| "truthy (Some s) = (s \<noteq> [])"

fun format_workspace_id :: "string option \<Rightarrow> string" where
  "format_workspace_id (Some s) = s"
| "format_workspace_id None = ''None''"

text \<open>
  \<open>workspace_id_backward_compatibility\<close>, a root validator with \<open>pre=False\<close>: it reads the
  validated values. \<open>values.get("workspace_id_pattern")\<close> of an absent key is \<open>None\<close>, which
  is not equal to the allow-all pattern.
\<close>

definition workspace_id_backward_compatibility ::
  "PowerBiDashboardSourceConfig \<Rightarrow> PowerBiDashboardSourceConfig" where
  "workspace_id_backward_compatibility values =
     (let workspace_id' = get_workspace_id values;
          workspace_id_pattern' = workspace_id_pattern values
      in if workspace_id_pattern' = Some allow_all \<and> truthy workspace_id' then
           values\<lparr>workspace_id_pattern :=
             Some (AllowDenyPattern_of_allow [''^'' @ format_workspace_id workspace_id' @ ''$''])\<rparr>
         else if workspace_id_pattern' \<noteq> Some allow_all \<and> truthy workspace_id' then
           values\<lparr>workspace_id := None\<rparr>
         else values)"

text \<open>
  Modelled from the spec: \<open>pydantic_field_deprecated\<close> is imported from
  \<open>datahub.configuration.pydantic_field_deprecation\<close>, which is not part of the source at
  hand. By the spec a deprecated field stays live and its use is no error, only a
  warning: the validator it builds returns the input unchanged.
\<close>

definition pydantic_field_deprecated :: "string \<Rightarrow> raw_mapping \<Rightarrow> error_kind + raw_mapping" where
  "pydantic_field_deprecated field values = Inr values"

subsection \<open>Construction\<close>

text \<open>
  One field of the model. A key that is absent from the input gives the default of the
  field, without validation, or, for a field declared without default, the error of a
  missing field; a key that is present gives the validated value or the error of its
  validation. The second component is the entry stored in \<open>values\<close>, if any. The default
  is \<open>None\<close> for a required field.
\<close>

definition validate_field ::
  "raw_mapping \<Rightarrow> string \<Rightarrow> (raw \<Rightarrow> error_kind + 'a) \<Rightarrow> 'a option
     \<Rightarrow> (string \<times> error_kind) list \<times> 'a option" where
  "validate_field input name validator dflt =
     (case input name of
        None \<Rightarrow>
          (case dflt of
             None \<Rightarrow> ([(name, MissingError)], None)
           | Some d \<Rightarrow> ([], Some d))
      | Some v \<Rightarrow>
          (case validator v of
             Inl e \<Rightarrow> ([(name, e)], None)
           | Inr x \<Rightarrow> ([], Some x)))"

text \<open>
  The field \<open>dataset_type_mapping\<close>: the coercion to its declared type, then the validator
  \<open>map_data_platform\<close> attached to the field.
\<close>

definition dataset_type_mapping_validator :: "raw \<Rightarrow> error_kind + dataset_type_mapping_value" where
  "dataset_type_mapping_validator v =
     (case dataset_type_mapping_coerce v of
        Inl e \<Rightarrow> Inl e
      | Inr value \<Rightarrow> Inr (map_data_platform_union value))"

text \<open>
  The fields of \<open>PowerBiDashboardSourceConfig\<close> with their declared types and defaults, in
  the order of the class body. \<open>make_data_platform_urn\<close> of \<open>datahub.emitter.mce_builder\<close>
  is not part of the source at hand and is a parameter. The fields and validators that
  only the base classes declare are not part of the source at hand either, and keys of
  the input that name no field of the class body are not read.
\<close>

definition validated_values ::
  "(string \<Rightarrow> string) \<Rightarrow> raw_mapping \<Rightarrow> PowerBiDashboardSourceConfig" where
  "validated_values make_data_platform_urn input =
     \<lparr>
        platform_name =
          snd (validate_field input ''platform_name'' str_validator (Some PLATFORM_NAME)),
        platform_urn =
          snd (validate_field input ''platform_urn'' str_validator (Some (make_data_platform_urn PLATFORM_NAME))),
        tenant_id =
          snd (validate_field input ''tenant_id'' str_validator None),
        workspace_id =
          snd (validate_field input ''workspace_id'' (optional_validator str_validator) (Some None)),
        workspace_id_pattern =
          snd (validate_field input ''workspace_id_pattern'' AllowDenyPattern_validator (Some allow_all)),
        dataset_type_mapping =
          snd (validate_field input ''dataset_type_mapping'' dataset_type_mapping_validator (Some (Inl default_for_dataset_type_mapping))),
        server_to_platform_instance =
          snd (validate_field input ''server_to_platform_instance'' (dict_validator PlatformDetail_validator) (Some [])),
        client_id =
          snd (validate_field input ''client_id'' str_validator None),
        client_secret =
          snd (validate_field input ''client_secret'' str_validator None),
        scan_timeout =
          snd (validate_field input ''scan_timeout'' int_validator (Some 60)),
        extract_ownership =
          snd (validate_field input ''extract_ownership'' bool_validator (Some False)),
        extract_reports =
          snd (validate_field input ''extract_reports'' bool_validator (Some True)),
        extract_lineage =
          snd (validate_field input ''extract_lineage'' bool_validator (Some True)),
        extract_endorsements_to_tags =
          snd (validate_field input ''extract_endorsements_to_tags'' bool_validator (Some False)),
        extract_workspaces_to_containers =
          snd (validate_field input ''extract_workspaces_to_containers'' bool_validator (Some True)),
        native_query_parsing =
          snd (validate_field input ''native_query_parsing'' bool_validator (Some True)),
        convert_urns_to_lowercase =
          snd (validate_field input ''convert_urns_to_lowercase'' bool_validator (Some False)),
        convert_lineage_urns_to_lowercase =
          snd (validate_field input ''convert_lineage_urns_to_lowercase'' bool_validator (Some True)),
        stateful_ingestion =
          snd (validate_field input ''stateful_ingestion'' (optional_validator Inr) (Some None)),
        admin_apis_only =
          snd (validate_field input ''admin_apis_only'' bool_validator (Some False)),
        platform_instance =
          snd (validate_field input ''platform_instance'' (optional_validator str_validator) (Some None))
     \<rparr>"

definition validation_errors ::
  "(string \<Rightarrow> string) \<Rightarrow> raw_mapping \<Rightarrow> (string \<times> error_kind) list" where
  "validation_errors make_data_platform_urn input =
     fst (validate_field input ''platform_name'' str_validator (Some PLATFORM_NAME)) @
     fst (validate_field input ''platform_urn'' str_validator (Some (make_data_platform_urn PLATFORM_NAME))) @
     fst (validate_field input ''tenant_id'' str_validator None) @
     fst (validate_field input ''workspace_id'' (optional_validator str_validator) (Some None)) @
     fst (validate_field input ''workspace_id_pattern'' AllowDenyPattern_validator (Some allow_all)) @
     fst (validate_field input ''dataset_type_mapping'' dataset_type_mapping_validator (Some (Inl default_for_dataset_type_mapping))) @
     fst (validate_field input ''server_to_platform_instance'' (dict_validator PlatformDetail_validator) (Some [])) @
     fst (validate_field input ''client_id'' str_validator None) @
     fst (validate_field input ''client_secret'' str_validator None) @
     fst (validate_field input ''scan_timeout'' int_validator (Some 60)) @
     fst (validate_field input ''extract_ownership'' bool_validator (Some False)) @
     fst (validate_field input ''extract_reports'' bool_validator (Some True)) @
     fst (validate_field input ''extract_lineage'' bool_validator (Some True)) @
     fst (validate_field input ''extract_endorsements_to_tags'' bool_validator (Some False)) @
     fst (validate_field input ''extract_workspaces_to_containers'' bool_validator (Some True)) @
     fst (validate_field input ''native_query_parsing'' bool_validator (Some True)) @
     fst (validate_field input ''convert_urns_to_lowercase'' bool_validator (Some False)) @
     fst (validate_field input ''convert_lineage_urns_to_lowercase'' bool_validator (Some True)) @
     fst (validate_field input ''stateful_ingestion'' (optional_validator Inr) (Some None)) @
     fst (validate_field input ''admin_apis_only'' bool_validator (Some False)) @
     fst (validate_field input ''platform_instance'' (optional_validator str_validator) (Some None))"

text \<open>
  The root validators with \<open>pre=True\<close>, in the order of the class body: the deprecation
  notice of \<open>dataset_type_mapping\<close>, then \<open>raise_error_for_dataset_type_mapping\<close>.
\<close>

definition pre_root_validators :: "raw_mapping \<Rightarrow> error_kind + raw_mapping" where
  "pre_root_validators input =
     (case pydantic_field_deprecated ''dataset_type_mapping'' input of
        Inl e \<Rightarrow> Inl e
      | Inr values \<Rightarrow> raise_error_for_dataset_type_mapping values)"

text \<open>
  The construction of a configuration from a raw mapping. An error raised by a root
  validator on the raw input ends the construction at once, under the root location.
  Otherwise the fields are validated one by one, \<open>workspace_id_backward_compatibility\<close>
  runs on the values (it is declared without \<open>skip_on_failure\<close>, so it runs whether or not
  a field failed, and it raises nothing), and the construction fails with all the errors
  of the fields if there is one.
\<close>

definition validate_model ::
  "(string \<Rightarrow> string) \<Rightarrow> raw_mapping \<Rightarrow> validation_error + PowerBiDashboardSourceConfig" where
  "validate_model make_data_platform_urn input =
     (case pre_root_validators input of
        Inl e \<Rightarrow> Inl (ValidationError [(ROOT_KEY, e)])
      | Inr input' \<Rightarrow>
          (let values = workspace_id_backward_compatibility
                 (validated_values make_data_platform_urn input');
               errors = validation_errors make_data_platform_urn input'
           in if errors = [] then Inr values else Inl (ValidationError errors)))"

section \<open>Sample inputs\<close>

text \<open>
  A function for the parameter \<open>make_data_platform_urn\<close>, for running the construction on
  concrete inputs.
\<close>

definition sample_urn :: "string \<Rightarrow> string" where
  "sample_urn platform = ''urn:li:dataPlatform:'' @ platform"

text \<open>The raw mapping that supplies the three required fields and nothing else.\<close>

definition required_only :: "string \<Rightarrow> string \<Rightarrow> string \<Rightarrow> raw_mapping" where
  "required_only t c s =
     [''tenant_id'' \<mapsto> RStr t, ''client_id'' \<mapsto> RStr c, ''client_secret'' \<mapsto> RStr s]"

section \<open>Auxiliary facts\<close>

lemma pre_root_validators_eq:
  "pre_root_validators input = raise_error_for_dataset_type_mapping input"
  by (simp add: pre_root_validators_def pydantic_field_deprecated_def)

lemma raise_error_cases:
  "raise_error_for_dataset_type_mapping input = Inr input'
     \<longleftrightarrow> input' = input \<and> (raw_get input ''dataset_type_mapping'' = RNone
          \<or> raw_get input ''server_to_platform_instance'' = RNone)"
  by (auto simp add: raise_error_for_dataset_type_mapping_def)

lemma validate_model_Inr_iff:
  "validate_model mk input = Inr config \<longleftrightarrow>
     raise_error_for_dataset_type_mapping input = Inr input
     \<and> validation_errors mk input = []
     \<and> config = workspace_id_backward_compatibility (validated_values mk input)"
  by (auto simp add: validate_model_def pre_root_validators_eq Let_def
      raise_error_for_dataset_type_mapping_def split: sum.splits if_splits)

lemma validate_field_absent:
  "input name = None \<Longrightarrow> validate_field input name validator (Some d) = ([], Some d)"
  by (simp add: validate_field_def)

lemma validate_field_missing:
  "input name = None \<Longrightarrow> validate_field input name validator None = ([(name, MissingError)], None)"
  by (simp add: validate_field_def)

lemma validate_field_present:
  "input name = Some v \<Longrightarrow> validator v = Inr x \<Longrightarrow> validate_field input name validator dflt = ([], Some x)"
  by (simp add: validate_field_def)

lemma validate_field_ok:
  "fst (validate_field input name validator dflt) = [] \<Longrightarrow> input name = Some v \<Longrightarrow>
     \<exists>x. validator v = Inr x \<and> snd (validate_field input name validator dflt) = Some x"
  by (auto simp add: validate_field_def split: sum.splits)

lemma validate_field_loc:
  "e \<in> set (fst (validate_field input name validator dflt)) \<Longrightarrow> fst e = name"
  by (auto simp add: validate_field_def split: option.splits sum.splits)

lemma validation_errors_loc:
  "e \<in> set (validation_errors mk input) \<Longrightarrow> fst e \<noteq> ROOT_KEY"
  unfolding validation_errors_def set_append Un_iff
  by (auto dest!: validate_field_loc simp add: ROOT_KEY_def)

lemma wibc_pattern:
  "workspace_id_pattern (workspace_id_backward_compatibility values) =
     (if workspace_id_pattern values = Some allow_all \<and> truthy (get_workspace_id values)
      then Some (AllowDenyPattern_of_allow [''^'' @ format_workspace_id (get_workspace_id values) @ ''$''])
      else workspace_id_pattern values)"
  by (simp add: workspace_id_backward_compatibility_def Let_def)

lemma wibc_workspace_id:
  "workspace_id (workspace_id_backward_compatibility values) =
     (if workspace_id_pattern values \<noteq> Some allow_all \<and> truthy (get_workspace_id values)
      then None else workspace_id values)"
  by (simp add: workspace_id_backward_compatibility_def Let_def)

lemma conflict_message_names:
  "sublist ''dataset_type_mapping'' conflict_message
   \<and> sublist ''server_to_platform_instance'' conflict_message
   \<and> sublist ''Use server_to_platform_instance only'' conflict_message"
proof -
  have "conflict_message = [] @ ''dataset_type_mapping'' @ '' is deprecated. Use server_to_platform_instance only.''"
    by (simp add: conflict_message_def)
  then have a: "sublist ''dataset_type_mapping'' conflict_message"
    unfolding sublist_def by blast
  have "conflict_message = ''dataset_type_mapping is deprecated. Use '' @ ''server_to_platform_instance'' @ '' only.''"
    by (simp add: conflict_message_def)
  then have b: "sublist ''server_to_platform_instance'' conflict_message"
    unfolding sublist_def by blast
  have "conflict_message = ''dataset_type_mapping is deprecated. '' @ ''Use server_to_platform_instance only'' @ ''.''"
    by (simp add: conflict_message_def)
  then have c: "sublist ''Use server_to_platform_instance only'' conflict_message"
    unfolding sublist_def by blast
  from a b c show ?thesis by simp
qed

lemma map_of_map_data_platform:
  "map_of (map_data_platform value) =
     (case map_of value ''PostgreSql'' of
        None \<Rightarrow> map_of value
      | Some v \<Rightarrow> ((map_of value)(''PostgreSql'' := None))(''PostgreSQL'' \<mapsto> v))"
  by (simp add: map_data_platform_def update_conv' delete_conv' split: option.splits)

lemma map_data_platform_idem:
  "map_data_platform (map_data_platform value) = map_data_platform value"
proof (cases "map_of value ''PostgreSql''")
  case None
  then show ?thesis by (simp add: map_data_platform_def)
next
  case (Some v)
  have "map_of (map_data_platform value) ''PostgreSql'' = None"
    using Some by (simp add: map_of_map_data_platform)
  then show ?thesis
    by (simp add: map_data_platform_def [of "map_data_platform value"])
qed

lemma anchored_not_allow_all:
  "AllowDenyPattern_of_allow [CHR ''^'' # t] \<noteq> allow_all"
  by (simp add: AllowDenyPattern_of_allow_def allow_all_def)

lemma wibc_twice:
  "workspace_id_backward_compatibility (workspace_id_backward_compatibility values) =
     (if workspace_id_pattern values = Some allow_all \<and> truthy (get_workspace_id values)
      then (workspace_id_backward_compatibility values)\<lparr>workspace_id := None\<rparr>
      else workspace_id_backward_compatibility values)"
  by (simp add: workspace_id_backward_compatibility_def Let_def get_workspace_id_def
      anchored_not_allow_all)

lemma wibc_thrice:
  "workspace_id_backward_compatibility
     (workspace_id_backward_compatibility (workspace_id_backward_compatibility values)) =
   workspace_id_backward_compatibility (workspace_id_backward_compatibility values)"
  by (simp add: workspace_id_backward_compatibility_def Let_def get_workspace_id_def
      anchored_not_allow_all)

lemmas construction_defs =
  validate_model_def pre_root_validators_def pydantic_field_deprecated_def
  raise_error_for_dataset_type_mapping_def raw_get_def validation_errors_def validate_field_def
  validated_values_def workspace_id_backward_compatibility_def get_workspace_id_def
  optional_validator_def Let_def required_only_def

lemma validate_field_upd_other:
  "name' \<noteq> name \<Longrightarrow>
     validate_field (input(name := x)) name' validator dflt = validate_field input name' validator dflt"
  by (simp add: validate_field_def)

lemma guard_upd_other:
  assumes "name \<noteq> ''dataset_type_mapping''" and "name \<noteq> ''server_to_platform_instance''"
    and "raise_error_for_dataset_type_mapping (input(name := x)) = Inr (input(name := x))"
  shows "raise_error_for_dataset_type_mapping (input(name := y)) = Inr (input(name := y))"
  using assms by (simp add: raise_error_for_dataset_type_mapping_def raw_get_def split: if_splits)

lemma missing_tenant_id:
  assumes "validation_errors mk (raw(''tenant_id'' \<mapsto> v)) = []"
  shows "validation_errors mk (raw(''tenant_id'' := None)) = [(''tenant_id'', MissingError)]"
  using assms by (simp add: validation_errors_def validate_field_upd_other validate_field_missing)

lemma missing_client_id:
  assumes "validation_errors mk (raw(''client_id'' \<mapsto> v)) = []"
  shows "validation_errors mk (raw(''client_id'' := None)) = [(''client_id'', MissingError)]"
  using assms by (simp add: validation_errors_def validate_field_upd_other validate_field_missing)

lemma missing_client_secret:
  assumes "validation_errors mk (raw(''client_secret'' \<mapsto> v)) = []"
  shows "validation_errors mk (raw(''client_secret'' := None)) = [(''client_secret'', MissingError)]"
  using assms by (simp add: validation_errors_def validate_field_upd_other validate_field_missing)

lemma required_absent_errors:
  assumes "name \<in> {''tenant_id'', ''client_id'', ''client_secret''}" and "raw name = None"
  shows "(name, MissingError) \<in> set (validation_errors mk raw)"
  using assms by (auto simp add: validation_errors_def validate_field_missing)

lemma validate_model_fails:
  assumes "validation_errors mk raw \<noteq> []"
  shows "\<exists>errors. validate_model mk raw = Inl (ValidationError errors)"
  using assms
  by (simp add: validate_model_def pre_root_validators_eq raise_error_for_dataset_type_mapping_def
      Let_def)

lemmas run_defs = construction_defs sample_urn_def allow_all_def AllowDenyPattern_of_allow_def
  ROOT_KEY_def PLATFORM_NAME_def

section \<open>The claims\<close>

subsection \<open>C1: the two mapping fields exclude each other, on raw presence\<close>

text \<open>
  Claim C1. When the raw mapping holds both \<open>dataset_type_mapping\<close> and
  \<open>server_to_platform_instance\<close> with values other than \<open>None\<close>, the construction fails
  with the single error raised by \<open>raise_error_for_dataset_type_mapping\<close>, at the root
  location; its message names both fields and says to use \<open>server_to_platform_instance\<close>
  only. The check reads the raw mapping: when \<open>dataset_type_mapping\<close> is absent or
  \<open>None\<close> there, the check passes whatever \<open>server_to_platform_instance\<close> is, the
  construction never fails with that error, and a successful construction holds the default
  mapping that the schema fills in.
\<close>

theorem conflict_on_raw_presence:
  "(raw_get raw ''dataset_type_mapping'' \<noteq> RNone
      \<and> raw_get raw ''server_to_platform_instance'' \<noteq> RNone \<longrightarrow>
      validate_model mk raw = Inl (ValidationError [(ROOT_KEY, ValueError conflict_message)])
      \<and> sublist ''dataset_type_mapping'' conflict_message
      \<and> sublist ''server_to_platform_instance'' conflict_message
      \<and> sublist ''Use server_to_platform_instance only'' conflict_message)
   \<and> (raw_get raw ''dataset_type_mapping'' = RNone \<longrightarrow>
      raise_error_for_dataset_type_mapping raw = Inr raw
      \<and> (\<forall>errors. validate_model mk raw = Inl (ValidationError errors) \<longrightarrow>
            (ROOT_KEY, ValueError conflict_message) \<notin> set errors)
      \<and> (\<forall>config. validate_model mk raw = Inr config \<longrightarrow>
            dataset_type_mapping config = Some (Inl default_for_dataset_type_mapping)))"
proof (intro conjI impI allI)
  assume "raw_get raw ''dataset_type_mapping'' \<noteq> RNone
      \<and> raw_get raw ''server_to_platform_instance'' \<noteq> RNone"
  then show "validate_model mk raw = Inl (ValidationError [(ROOT_KEY, ValueError conflict_message)])"
    by (simp add: validate_model_def pre_root_validators_eq raise_error_for_dataset_type_mapping_def)
next
  assume a: "raw_get raw ''dataset_type_mapping'' = RNone"
  then show g: "raise_error_for_dataset_type_mapping raw = Inr raw"
    by (simp add: raise_error_for_dataset_type_mapping_def)
  {
    fix errors
    assume "validate_model mk raw = Inl (ValidationError errors)"
    with g have "errors = validation_errors mk raw"
      by (simp add: validate_model_def pre_root_validators_eq Let_def split: if_splits)
    then show "(ROOT_KEY, ValueError conflict_message) \<notin> set errors"
      using validation_errors_loc [of "(ROOT_KEY, ValueError conflict_message)" mk raw] by auto
  }
  {
    fix config
    assume v: "validate_model mk raw = Inr config"
    then have config: "config = workspace_id_backward_compatibility (validated_values mk raw)"
      and errs: "validation_errors mk raw = []"
      by (simp_all add: validate_model_Inr_iff)
    from errs have e: "fst (validate_field raw ''dataset_type_mapping'' dataset_type_mapping_validator
          (Some (Inl default_for_dataset_type_mapping))) = []"
      by (simp add: validation_errors_def)
    have "raw ''dataset_type_mapping'' = None"
    proof (cases "raw ''dataset_type_mapping''")
      case None then show ?thesis .
    next
      case (Some r)
      with a have "r = RNone" by (simp add: raw_get_def)
      with Some e show ?thesis
        by (simp add: validate_field_def dataset_type_mapping_validator_def
            dataset_type_mapping_coerce_def dict_validator_def)
    qed
    then show "dataset_type_mapping config = Some (Inl default_for_dataset_type_mapping)"
      by (simp add: config workspace_id_backward_compatibility_def Let_def validated_values_def
          validate_field_absent)
  }
qed (simp_all add: conflict_message_names)

text \<open>
  C1 on concrete inputs: one raw mapping with both fields, which is refused, and one with
  \<open>server_to_platform_instance\<close> alone, which constructs, with the default mapping.
\<close>

theorem conflict_on_raw_presence_witness:
  "raw_get ((required_only ''t'' ''c'' ''s'')(''dataset_type_mapping'' \<mapsto> RDict [(''Snowflake'', RStr ''snowflake'')],
        ''server_to_platform_instance'' \<mapsto> RDict [])) ''dataset_type_mapping'' \<noteq> RNone
   \<and> raw_get ((required_only ''t'' ''c'' ''s'')(''dataset_type_mapping'' \<mapsto> RDict [(''Snowflake'', RStr ''snowflake'')],
        ''server_to_platform_instance'' \<mapsto> RDict [])) ''server_to_platform_instance'' \<noteq> RNone
   \<and> validate_model sample_urn
        ((required_only ''t'' ''c'' ''s'')(''dataset_type_mapping'' \<mapsto> RDict [(''Snowflake'', RStr ''snowflake'')],
        ''server_to_platform_instance'' \<mapsto> RDict []))
      = Inl (ValidationError [(ROOT_KEY, ValueError conflict_message)])
   \<and> raw_get ((required_only ''t'' ''c'' ''s'')(''server_to_platform_instance'' \<mapsto> RDict []))
        ''dataset_type_mapping'' = RNone
   \<and> validate_model sample_urn ((required_only ''t'' ''c'' ''s'')(''server_to_platform_instance'' \<mapsto> RDict []))
      = Inr (workspace_id_backward_compatibility (validated_values sample_urn
          ((required_only ''t'' ''c'' ''s'')(''server_to_platform_instance'' \<mapsto> RDict []))))
   \<and> dataset_type_mapping (workspace_id_backward_compatibility (validated_values sample_urn
          ((required_only ''t'' ''c'' ''s'')(''server_to_platform_instance'' \<mapsto> RDict []))))
      = Some (Inl default_for_dataset_type_mapping)"
proof -
  have a: "raw_get ((required_only ''t'' ''c'' ''s'')(''dataset_type_mapping'' \<mapsto> RDict [(''Snowflake'', RStr ''snowflake'')],
        ''server_to_platform_instance'' \<mapsto> RDict [])) ''dataset_type_mapping'' \<noteq> RNone
   \<and> raw_get ((required_only ''t'' ''c'' ''s'')(''dataset_type_mapping'' \<mapsto> RDict [(''Snowflake'', RStr ''snowflake'')],
        ''server_to_platform_instance'' \<mapsto> RDict [])) ''server_to_platform_instance'' \<noteq> RNone"
    by (simp add: raw_get_def)
  have b: "raw_get ((required_only ''t'' ''c'' ''s'')(''server_to_platform_instance'' \<mapsto> RDict []))
        ''dataset_type_mapping'' = RNone"
    by (simp add: raw_get_def required_only_def)
  have c: "validate_model sample_urn ((required_only ''t'' ''c'' ''s'')(''server_to_platform_instance'' \<mapsto> RDict []))
      = Inr (workspace_id_backward_compatibility (validated_values sample_urn
          ((required_only ''t'' ''c'' ''s'')(''server_to_platform_instance'' \<mapsto> RDict []))))"
    by (simp add: run_defs dict_validator_def)
  show ?thesis
    using a b c
      conflict_on_raw_presence [of "(required_only ''t'' ''c'' ''s'')(''dataset_type_mapping'' \<mapsto> RDict [(''Snowflake'', RStr ''snowflake'')],
        ''server_to_platform_instance'' \<mapsto> RDict [])" sample_urn]
      conflict_on_raw_presence [of "(required_only ''t'' ''c'' ''s'')(''server_to_platform_instance'' \<mapsto> RDict [])" sample_urn]
    by blast
qed

subsection \<open>C2: a workspace id alone gives the anchored pattern\<close>

text \<open>
  Claim C2 as stated, for every string \<open>s\<close>, fails at the empty string: the validator
  tests the truth value of \<open>workspace_id\<close>, the empty string is false, and the pattern
  stays the allow-all default.
\<close>

theorem empty_workspace_id_keeps_allow_all:
  "((required_only ''t'' ''c'' ''s'')(''workspace_id'' \<mapsto> RStr [])) ''workspace_id_pattern'' = None
   \<and> ((required_only ''t'' ''c'' ''s'')(''workspace_id'' \<mapsto> RStr [])) ''workspace_id'' = Some (RStr [])
   \<and> map_sum id workspace_id_pattern
         (validate_model sample_urn ((required_only ''t'' ''c'' ''s'')(''workspace_id'' \<mapsto> RStr [])))
       = Inr (Some \<lparr>allow = [''.*''], deny = []\<rparr>)
   \<and> map_sum id workspace_id_pattern
         (validate_model sample_urn ((required_only ''t'' ''c'' ''s'')(''workspace_id'' \<mapsto> RStr [])))
       \<noteq> Inr (Some \<lparr>allow = [''^'' @ [] @ ''$''], deny = []\<rparr>)"
  by (simp add: run_defs)

text \<open>
  Claim C2, amended. When \<open>workspace_id_pattern\<close> is absent from the raw mapping and
  \<open>workspace_id\<close> is a non-empty string \<open>s\<close>, every successful construction has the
  pattern with \<open>allow\<close> equal to the one-element list of \<open>^\<close>, \<open>s\<close>, \<open>$\<close> joined
  and with an empty \<open>deny\<close> list.
\<close>

theorem workspace_id_gives_anchored_pattern:
  assumes "validate_model mk raw = Inr config"
    and "raw ''workspace_id_pattern'' = None"
    and "raw ''workspace_id'' = Some (RStr s)"
    and "s \<noteq> []"
  shows "workspace_id_pattern config = Some \<lparr>allow = [''^'' @ s @ ''$''], deny = []\<rparr>"
proof -
  from assms(1) have config: "config = workspace_id_backward_compatibility (validated_values mk raw)"
    by (simp add: validate_model_Inr_iff)
  have p: "workspace_id_pattern (validated_values mk raw) = Some allow_all"
    using assms(2) by (simp add: validated_values_def validate_field_absent)
  have w: "get_workspace_id (validated_values mk raw) = Some s"
    using assms(3)
    by (simp add: validated_values_def get_workspace_id_def validate_field_def optional_validator_def)
  show ?thesis
    using p w assms(4) by (simp add: config wibc_pattern AllowDenyPattern_of_allow_def)
qed

text \<open>
  C2 on a concrete input: the workspace id \<open>abc\<close> and no pattern.
\<close>

theorem workspace_id_gives_anchored_pattern_witness:
  "validate_model sample_urn ((required_only ''t'' ''c'' ''s'')(''workspace_id'' \<mapsto> RStr ''abc''))
     = Inr (workspace_id_backward_compatibility (validated_values sample_urn
          ((required_only ''t'' ''c'' ''s'')(''workspace_id'' \<mapsto> RStr ''abc''))))
   \<and> ((required_only ''t'' ''c'' ''s'')(''workspace_id'' \<mapsto> RStr ''abc'')) ''workspace_id_pattern'' = None
   \<and> ((required_only ''t'' ''c'' ''s'')(''workspace_id'' \<mapsto> RStr ''abc'')) ''workspace_id'' = Some (RStr ''abc'')
   \<and> ''abc'' \<noteq> []
   \<and> workspace_id_pattern (workspace_id_backward_compatibility (validated_values sample_urn
          ((required_only ''t'' ''c'' ''s'')(''workspace_id'' \<mapsto> RStr ''abc''))))
       = Some \<lparr>allow = [''^abc$''], deny = []\<rparr>"
proof -
  have h: "validate_model sample_urn ((required_only ''t'' ''c'' ''s'')(''workspace_id'' \<mapsto> RStr ''abc''))
     = Inr (workspace_id_backward_compatibility (validated_values sample_urn
          ((required_only ''t'' ''c'' ''s'')(''workspace_id'' \<mapsto> RStr ''abc''))))"
    by (simp add: run_defs)
  have p: "((required_only ''t'' ''c'' ''s'')(''workspace_id'' \<mapsto> RStr ''abc'')) ''workspace_id_pattern'' = None"
    by (simp add: required_only_def)
  have w: "((required_only ''t'' ''c'' ''s'')(''workspace_id'' \<mapsto> RStr ''abc'')) ''workspace_id'' = Some (RStr ''abc'')"
    by simp
  have n: "''abc'' \<noteq> []" by simp
  show ?thesis using h p w workspace_id_gives_anchored_pattern [OF h p w n] by simp
qed

subsection \<open>C3: the workspace id in the result\<close>

text \<open>
  Claim C3 as stated fails when \<open>workspace_id\<close> is supplied without a pattern: the first
  branch of the validator rewrites the pattern and leaves \<open>workspace_id\<close> in the values,
  so the result holds the supplied string.
\<close>

theorem workspace_id_survives:
  "map_sum id workspace_id
     (validate_model sample_urn ((required_only ''t'' ''c'' ''s'')(''workspace_id'' \<mapsto> RStr ''abc'')))
   = Inr (Some (Some ''abc''))"
  by (simp add: run_defs)

text \<open>
  Claim C3, amended. In a successful construction \<open>workspace_id\<close> is absent from the
  result exactly when the raw mapping supplied a non-empty string for it together with a
  \<open>workspace_id_pattern\<close> whose validated value differs from the allow-all pattern. In
  every other case the result still holds \<open>workspace_id\<close>: the supplied string, or
  \<open>None\<close> when it was absent or \<open>None\<close> in the raw mapping.
\<close>

theorem workspace_id_in_result:
  assumes "validate_model mk raw = Inr config"
  shows "(workspace_id config = None \<longleftrightarrow>
            (\<exists>s r p. raw ''workspace_id'' = Some (RStr s) \<and> s \<noteq> []
               \<and> raw ''workspace_id_pattern'' = Some r
               \<and> AllowDenyPattern_validator r = Inr p \<and> p \<noteq> allow_all))
         \<and> (\<forall>s. raw ''workspace_id'' = Some (RStr s) \<and> workspace_id config \<noteq> None \<longrightarrow>
               workspace_id config = Some (Some s))
         \<and> (raw_get raw ''workspace_id'' = RNone \<longrightarrow> workspace_id config = Some None)"
proof -
  from assms have config: "config = workspace_id_backward_compatibility (validated_values mk raw)"
    and errs: "validation_errors mk raw = []"
    by (simp_all add: validate_model_Inr_iff)
  from errs have ew: "fst (validate_field raw ''workspace_id'' (optional_validator str_validator) (Some None)) = []"
    and ep: "fst (validate_field raw ''workspace_id_pattern'' AllowDenyPattern_validator (Some allow_all)) = []"
    by (simp_all add: validation_errors_def)
  have w: "workspace_id (validated_values mk raw) =
      snd (validate_field raw ''workspace_id'' (optional_validator str_validator) (Some None))"
    and p: "workspace_id_pattern (validated_values mk raw) =
      snd (validate_field raw ''workspace_id_pattern'' AllowDenyPattern_validator (Some allow_all))"
    by (simp_all add: validated_values_def)
  show ?thesis
    using ew ep
    apply (simp add: config wibc_workspace_id get_workspace_id_def w p)
    apply (cases "raw ''workspace_id''"; cases "raw ''workspace_id_pattern''")
       apply (auto simp add: validate_field_def optional_validator_def raw_get_def
        split: sum.splits if_splits raw.splits elim!: str_validator.elims)
    done
qed

text \<open>
  C3 on a concrete input: the workspace id \<open>abc\<close> and an explicit pattern.
\<close>

theorem workspace_id_in_result_witness:
  "validate_model sample_urn ((required_only ''t'' ''c'' ''s'')(''workspace_id'' \<mapsto> RStr ''abc'',
        ''workspace_id_pattern'' \<mapsto> RDict [(''allow'', RList [RStr ''^foo.*''])]))
     = Inr (workspace_id_backward_compatibility (validated_values sample_urn
          ((required_only ''t'' ''c'' ''s'')(''workspace_id'' \<mapsto> RStr ''abc'',
        ''workspace_id_pattern'' \<mapsto> RDict [(''allow'', RList [RStr ''^foo.*''])]))))
   \<and> workspace_id (workspace_id_backward_compatibility (validated_values sample_urn
          ((required_only ''t'' ''c'' ''s'')(''workspace_id'' \<mapsto> RStr ''abc'',
        ''workspace_id_pattern'' \<mapsto> RDict [(''allow'', RList [RStr ''^foo.*''])])))) = None"
proof -
  have h: "validate_model sample_urn ((required_only ''t'' ''c'' ''s'')(''workspace_id'' \<mapsto> RStr ''abc'',
        ''workspace_id_pattern'' \<mapsto> RDict [(''allow'', RList [RStr ''^foo.*''])]))
     = Inr (workspace_id_backward_compatibility (validated_values sample_urn
          ((required_only ''t'' ''c'' ''s'')(''workspace_id'' \<mapsto> RStr ''abc'',
        ''workspace_id_pattern'' \<mapsto> RDict [(''allow'', RList [RStr ''^foo.*''])]))))"
    by (simp add: run_defs AllowDenyPattern_validator_def key_validator_def list_validator_def)
  have "((required_only ''t'' ''c'' ''s'')(''workspace_id'' \<mapsto> RStr ''abc'',
        ''workspace_id_pattern'' \<mapsto> RDict [(''allow'', RList [RStr ''^foo.*''])])) ''workspace_id''
          = Some (RStr ''abc'') \<and> ''abc'' \<noteq> []
      \<and> ((required_only ''t'' ''c'' ''s'')(''workspace_id'' \<mapsto> RStr ''abc'',
        ''workspace_id_pattern'' \<mapsto> RDict [(''allow'', RList [RStr ''^foo.*''])])) ''workspace_id_pattern''
          = Some (RDict [(''allow'', RList [RStr ''^foo.*''])])
      \<and> AllowDenyPattern_validator (RDict [(''allow'', RList [RStr ''^foo.*''])])
          = Inr \<lparr>allow = [''^foo.*''], deny = []\<rparr>
      \<and> \<lparr>allow = [''^foo.*''], deny = []\<rparr> \<noteq> allow_all"
    by (simp add: AllowDenyPattern_validator_def key_validator_def list_validator_def allow_all_def)
  then have e: "\<exists>s r p. ((required_only ''t'' ''c'' ''s'')(''workspace_id'' \<mapsto> RStr ''abc'',
        ''workspace_id_pattern'' \<mapsto> RDict [(''allow'', RList [RStr ''^foo.*''])])) ''workspace_id''
          = Some (RStr s) \<and> s \<noteq> []
      \<and> ((required_only ''t'' ''c'' ''s'')(''workspace_id'' \<mapsto> RStr ''abc'',
        ''workspace_id_pattern'' \<mapsto> RDict [(''allow'', RList [RStr ''^foo.*''])])) ''workspace_id_pattern''
          = Some r
      \<and> AllowDenyPattern_validator r = Inr p \<and> p \<noteq> allow_all"
    by blast
  from workspace_id_in_result [OF h] e show ?thesis using h by blast
qed

subsection \<open>C4: applying the rules again\<close>

text \<open>
  Claim C4 as stated fails for the workspace rule: on the result of a construction from
  a workspace id alone, which still holds \<open>workspace_id\<close>, the rule finds a pattern that is
  no longer the default and removes \<open>workspace_id\<close>.
\<close>

theorem workspace_rule_changes_own_output:
  "map_sum id workspace_id
     (validate_model sample_urn ((required_only ''t'' ''c'' ''s'')(''workspace_id'' \<mapsto> RStr ''abc'')))
   = Inr (Some (Some ''abc''))
   \<and> map_sum id (workspace_id \<circ> workspace_id_backward_compatibility)
     (validate_model sample_urn ((required_only ''t'' ''c'' ''s'')(''workspace_id'' \<mapsto> RStr ''abc'')))
   = Inr None"
  by (simp add: run_defs)

text \<open>
  Claim C4, amended. The rules run at different stages, each on its own kind of value, so
  each is applied again to its own output. The key rewrite \<open>map_data_platform\<close> applied
  again changes nothing. The guard \<open>raise_error_for_dataset_type_mapping\<close> that has passed
  an input passes it again, unchanged. The workspace rule applied again changes nothing,
  except after the case of the allow-all pattern with a non-empty \<open>workspace_id\<close>: there
  the second application removes \<open>workspace_id\<close> and keeps the generated pattern. A
  third application never changes anything.
\<close>

theorem rules_applied_again:
  "map_data_platform (map_data_platform value) = map_data_platform value
   \<and> (raise_error_for_dataset_type_mapping input = Inr input' \<longrightarrow>
        raise_error_for_dataset_type_mapping input' = Inr input')
   \<and> workspace_id_backward_compatibility (workspace_id_backward_compatibility values) =
       (if workspace_id_pattern values = Some allow_all \<and> truthy (get_workspace_id values)
        then (workspace_id_backward_compatibility values)\<lparr>workspace_id := None\<rparr>
        else workspace_id_backward_compatibility values)
   \<and> workspace_id_backward_compatibility
       (workspace_id_backward_compatibility (workspace_id_backward_compatibility values)) =
     workspace_id_backward_compatibility (workspace_id_backward_compatibility values)"
proof (intro conjI impI)
  show "map_data_platform (map_data_platform value) = map_data_platform value"
    by (rule map_data_platform_idem)
next
  assume "raise_error_for_dataset_type_mapping input = Inr input'"
  then show "raise_error_for_dataset_type_mapping input' = Inr input'"
    by (simp add: raise_error_cases)
qed (rule wibc_twice, rule wibc_thrice)

text \<open>
  C4 on concrete inputs: the mapping with the legacy key, the raw mapping of the required
  fields, and the values constructed from it.
\<close>

theorem rules_applied_again_witness:
  "raise_error_for_dataset_type_mapping (required_only ''t'' ''c'' ''s'') = Inr (required_only ''t'' ''c'' ''s'')
   \<and> map_data_platform (map_data_platform [(''PostgreSql'', ''postgres'')])
       = map_data_platform [(''PostgreSql'', ''postgres'')]
   \<and> workspace_id_backward_compatibility (workspace_id_backward_compatibility
        (workspace_id_backward_compatibility (validated_values sample_urn (required_only ''t'' ''c'' ''s''))))
     = workspace_id_backward_compatibility
        (workspace_id_backward_compatibility (validated_values sample_urn (required_only ''t'' ''c'' ''s'')))"
proof -
  have g: "raise_error_for_dataset_type_mapping (required_only ''t'' ''c'' ''s'') = Inr (required_only ''t'' ''c'' ''s'')"
    by (simp add: raise_error_for_dataset_type_mapping_def raw_get_def required_only_def)
  show ?thesis
    using g rules_applied_again [of "[(''PostgreSql'', ''postgres'')]" "required_only ''t'' ''c'' ''s''"
        "required_only ''t'' ''c'' ''s''" "validated_values sample_urn (required_only ''t'' ''c'' ''s'')"]
    by blast
qed

subsection \<open>C5: the key PostgreSql is renamed\<close>

text \<open>
  Claim C5. When the mapping handed to \<open>map_data_platform\<close> holds the key
  \<open>PostgreSql\<close> with value \<open>v\<close>, the result holds \<open>PostgreSQL\<close> with value \<open>v\<close>, holds
  \<open>PostgreSql\<close> no more, and is unchanged at every other key; a mapping without the key
  is returned as it is. In a successful construction from a raw mapping that supplies
  \<open>dataset_type_mapping\<close>, the result holds the supplied mapping, coerced to its declared
  type, after this rewrite.
\<close>

theorem legacy_key_renamed:
  "(map_of value ''PostgreSql'' = Some v \<longrightarrow>
      map_of (map_data_platform value) ''PostgreSQL'' = Some v
      \<and> map_of (map_data_platform value) ''PostgreSql'' = None
      \<and> (\<forall>k. k \<noteq> ''PostgreSql'' \<and> k \<noteq> ''PostgreSQL'' \<longrightarrow>
            map_of (map_data_platform value) k = map_of value k))
   \<and> (map_of value ''PostgreSql'' = None \<longrightarrow> map_data_platform value = value)
   \<and> (\<forall>config r. validate_model mk raw = Inr config \<and> raw ''dataset_type_mapping'' = Some r \<longrightarrow>
         (\<exists>d. dataset_type_mapping_coerce r = Inr d
            \<and> dataset_type_mapping config = Some (map_sum map_data_platform map_data_platform d)))"
proof (intro conjI impI allI)
  fix config r
  assume a: "validate_model mk raw = Inr config \<and> raw ''dataset_type_mapping'' = Some r"
  then have config: "config = workspace_id_backward_compatibility (validated_values mk raw)"
    and errs: "validation_errors mk raw = []"
    by (simp_all add: validate_model_Inr_iff)
  from errs have e: "fst (validate_field raw ''dataset_type_mapping'' dataset_type_mapping_validator
        (Some (Inl default_for_dataset_type_mapping))) = []"
    by (simp add: validation_errors_def)
  from validate_field_ok [OF e] a obtain x where x: "dataset_type_mapping_validator r = Inr x"
    "snd (validate_field raw ''dataset_type_mapping'' dataset_type_mapping_validator
        (Some (Inl default_for_dataset_type_mapping))) = Some x"
    by blast
  from x(1) obtain d where d: "dataset_type_mapping_coerce r = Inr d" "x = map_data_platform_union d"
    by (auto simp add: dataset_type_mapping_validator_def split: sum.splits)
  have "dataset_type_mapping config = Some x"
    using x(2) by (simp add: config workspace_id_backward_compatibility_def Let_def validated_values_def)
  with d show "\<exists>d. dataset_type_mapping_coerce r = Inr d
            \<and> dataset_type_mapping config = Some (map_sum map_data_platform map_data_platform d)"
    by (auto simp add: map_data_platform_union_def)
next
  assume "map_of value ''PostgreSql'' = None"
  then show "map_data_platform value = value"
    by (simp add: map_data_platform_def)
qed (simp_all add: map_of_map_data_platform)

text \<open>
  C5 on concrete inputs: a mapping with the legacy key, alone and as the
  \<open>dataset_type_mapping\<close> of a raw mapping.
\<close>

theorem legacy_key_renamed_witness:
  "map_of [(''PostgreSql'', ''postgres''), (''Oracle'', ''oracle'')] ''PostgreSql'' = Some ''postgres''
   \<and> map_of (map_data_platform [(''PostgreSql'', ''postgres''), (''Oracle'', ''oracle'')]) ''PostgreSQL''
        = Some ''postgres''
   \<and> map_of (map_data_platform [(''PostgreSql'', ''postgres''), (''Oracle'', ''oracle'')]) ''PostgreSql''
        = None
   \<and> validate_model sample_urn ((required_only ''t'' ''c'' ''s'')(''dataset_type_mapping'' \<mapsto>
          RDict [(''PostgreSql'', RStr ''postgres''), (''Oracle'', RStr ''oracle'')]))
     = Inr (workspace_id_backward_compatibility (validated_values sample_urn
          ((required_only ''t'' ''c'' ''s'')(''dataset_type_mapping'' \<mapsto>
          RDict [(''PostgreSql'', RStr ''postgres''), (''Oracle'', RStr ''oracle'')]))))
   \<and> (\<exists>d. dataset_type_mapping_coerce (RDict [(''PostgreSql'', RStr ''postgres''), (''Oracle'', RStr ''oracle'')])
          = Inr d
        \<and> dataset_type_mapping (workspace_id_backward_compatibility (validated_values sample_urn
          ((required_only ''t'' ''c'' ''s'')(''dataset_type_mapping'' \<mapsto>
          RDict [(''PostgreSql'', RStr ''postgres''), (''Oracle'', RStr ''oracle'')]))))
          = Some (map_sum map_data_platform map_data_platform d))"
proof -
  have m: "map_of [(''PostgreSql'', ''postgres''), (''Oracle'', ''oracle'')] ''PostgreSql'' = Some ''postgres''"
    by simp
  have h: "validate_model sample_urn ((required_only ''t'' ''c'' ''s'')(''dataset_type_mapping'' \<mapsto>
          RDict [(''PostgreSql'', RStr ''postgres''), (''Oracle'', RStr ''oracle'')]))
     = Inr (workspace_id_backward_compatibility (validated_values sample_urn
          ((required_only ''t'' ''c'' ''s'')(''dataset_type_mapping'' \<mapsto>
          RDict [(''PostgreSql'', RStr ''postgres''), (''Oracle'', RStr ''oracle'')]))))"
    by (simp add: run_defs dataset_type_mapping_validator_def dataset_type_mapping_coerce_def
        dict_validator_def)
  have r: "((required_only ''t'' ''c'' ''s'')(''dataset_type_mapping'' \<mapsto>
          RDict [(''PostgreSql'', RStr ''postgres''), (''Oracle'', RStr ''oracle'')])) ''dataset_type_mapping''
        = Some (RDict [(''PostgreSql'', RStr ''postgres''), (''Oracle'', RStr ''oracle'')])"
    by simp
  show ?thesis
    using m h r
      legacy_key_renamed [of "[(''PostgreSql'', ''postgres''), (''Oracle'', ''oracle'')]" "''postgres''" sample_urn
        "(required_only ''t'' ''c'' ''s'')(''dataset_type_mapping'' \<mapsto>
          RDict [(''PostgreSql'', RStr ''postgres''), (''Oracle'', RStr ''oracle'')])"]
    by blast
qed

subsection \<open>C6: an explicit pattern wins over the workspace id\<close>

text \<open>
  Claim C6 as stated, for every supplied \<open>workspace_id\<close>, fails at the empty string: it
  is false as a truth value, neither branch of the validator is taken, and the result
  still holds \<open>workspace_id\<close>.
\<close>

theorem explicit_pattern_empty_workspace_id:
  "((required_only ''t'' ''c'' ''s'')(''workspace_id'' \<mapsto> RStr [],
        ''workspace_id_pattern'' \<mapsto> RDict [(''allow'', RList [RStr ''^foo.*'']), (''deny'', RList [])]))
      ''workspace_id'' = Some (RStr [])
   \<and> AllowDenyPattern_validator (RDict [(''allow'', RList [RStr ''^foo.*'']), (''deny'', RList [])])
      = Inr \<lparr>allow = [''^foo.*''], deny = []\<rparr>
   \<and> \<lparr>allow = [''^foo.*''], deny = []\<rparr> \<noteq> allow_all
   \<and> map_sum id workspace_id
     (validate_model sample_urn ((required_only ''t'' ''c'' ''s'')(''workspace_id'' \<mapsto> RStr [],
        ''workspace_id_pattern'' \<mapsto> RDict [(''allow'', RList [RStr ''^foo.*'']), (''deny'', RList [])])))
   = Inr (Some (Some []))"
  by (simp add: run_defs AllowDenyPattern_validator_def key_validator_def list_validator_def)

text \<open>
  Claim C6, amended. When the raw mapping supplies a \<open>workspace_id_pattern\<close> whose
  validated value differs from the allow-all pattern, and a non-empty string for
  \<open>workspace_id\<close>, every successful construction has \<open>workspace_id\<close> absent and
  \<open>workspace_id_pattern\<close> equal to the supplied pattern.
\<close>

theorem explicit_pattern_wins:
  assumes "validate_model mk raw = Inr config"
    and "raw ''workspace_id'' = Some (RStr s)"
    and "s \<noteq> []"
    and "raw ''workspace_id_pattern'' = Some r"
    and "AllowDenyPattern_validator r = Inr p"
    and "p \<noteq> allow_all"
  shows "workspace_id config = None \<and> workspace_id_pattern config = Some p"
proof -
  from assms(1) have config: "config = workspace_id_backward_compatibility (validated_values mk raw)"
    by (simp add: validate_model_Inr_iff)
  have pat: "workspace_id_pattern (validated_values mk raw) = Some p"
    using assms(4,5) by (simp add: validated_values_def validate_field_present)
  have w: "get_workspace_id (validated_values mk raw) = Some s"
    using assms(2)
    by (simp add: validated_values_def get_workspace_id_def validate_field_def optional_validator_def)
  show ?thesis
    using pat w assms(3,6) by (simp add: config wibc_pattern wibc_workspace_id)
qed

text \<open>
  C6 on a concrete input: the workspace id \<open>abc\<close> and the pattern that allows
  \<open>^foo.*\<close>.
\<close>

theorem explicit_pattern_wins_witness:
  "validate_model sample_urn ((required_only ''t'' ''c'' ''s'')(''workspace_id'' \<mapsto> RStr ''abc'',
        ''workspace_id_pattern'' \<mapsto> RDict [(''allow'', RList [RStr ''^foo.*'']), (''deny'', RList [])]))
     = Inr (workspace_id_backward_compatibility (validated_values sample_urn
          ((required_only ''t'' ''c'' ''s'')(''workspace_id'' \<mapsto> RStr ''abc'',
        ''workspace_id_pattern'' \<mapsto> RDict [(''allow'', RList [RStr ''^foo.*'']), (''deny'', RList [])]))))
   \<and> AllowDenyPattern_validator (RDict [(''allow'', RList [RStr ''^foo.*'']), (''deny'', RList [])])
       = Inr \<lparr>allow = [''^foo.*''], deny = []\<rparr>
   \<and> \<lparr>allow = [''^foo.*''], deny = []\<rparr> \<noteq> allow_all
   \<and> workspace_id (workspace_id_backward_compatibility (validated_values sample_urn
          ((required_only ''t'' ''c'' ''s'')(''workspace_id'' \<mapsto> RStr ''abc'',
        ''workspace_id_pattern'' \<mapsto> RDict [(''allow'', RList [RStr ''^foo.*'']), (''deny'', RList [])])))) = None
   \<and> workspace_id_pattern (workspace_id_backward_compatibility (validated_values sample_urn
          ((required_only ''t'' ''c'' ''s'')(''workspace_id'' \<mapsto> RStr ''abc'',
        ''workspace_id_pattern'' \<mapsto> RDict [(''allow'', RList [RStr ''^foo.*'']), (''deny'', RList [])]))))
       = Some \<lparr>allow = [''^foo.*''], deny = []\<rparr>"
proof -
  have h: "validate_model sample_urn ((required_only ''t'' ''c'' ''s'')(''workspace_id'' \<mapsto> RStr ''abc'',
        ''workspace_id_pattern'' \<mapsto> RDict [(''allow'', RList [RStr ''^foo.*'']), (''deny'', RList [])]))
     = Inr (workspace_id_backward_compatibility (validated_values sample_urn
          ((required_only ''t'' ''c'' ''s'')(''workspace_id'' \<mapsto> RStr ''abc'',
        ''workspace_id_pattern'' \<mapsto> RDict [(''allow'', RList [RStr ''^foo.*'']), (''deny'', RList [])]))))"
    by (simp add: run_defs AllowDenyPattern_validator_def key_validator_def list_validator_def)
  have w: "((required_only ''t'' ''c'' ''s'')(''workspace_id'' \<mapsto> RStr ''abc'',
        ''workspace_id_pattern'' \<mapsto> RDict [(''allow'', RList [RStr ''^foo.*'']), (''deny'', RList [])]))
       ''workspace_id'' = Some (RStr ''abc'')"
    by simp
  have n: "''abc'' \<noteq> []" by simp
  have r: "((required_only ''t'' ''c'' ''s'')(''workspace_id'' \<mapsto> RStr ''abc'',
        ''workspace_id_pattern'' \<mapsto> RDict [(''allow'', RList [RStr ''^foo.*'']), (''deny'', RList [])]))
       ''workspace_id_pattern'' = Some (RDict [(''allow'', RList [RStr ''^foo.*'']), (''deny'', RList [])])"
    by simp
  have v: "AllowDenyPattern_validator (RDict [(''allow'', RList [RStr ''^foo.*'']), (''deny'', RList [])])
       = Inr \<lparr>allow = [''^foo.*''], deny = []\<rparr>"
    by (simp add: AllowDenyPattern_validator_def key_validator_def list_validator_def)
  have d: "\<lparr>allow = [''^foo.*''], deny = []\<rparr> \<noteq> allow_all"
    by (simp add: allow_all_def)
  show ?thesis using h v d explicit_pattern_wins [OF h w n r v d] by blast
qed

subsection \<open>C7: a supplied platform urn\<close>

text \<open>
  Claim C7 as stated fails: \<open>platform_urn\<close> is a field with a default like any other,
  and a supplied string replaces the default.
\<close>

theorem platform_urn_not_ignored:
  "map_sum id platform_urn
     (validate_model sample_urn ((required_only ''t'' ''c'' ''s'')(''platform_urn'' \<mapsto> RStr ''urn:li:dataPlatform:tableau'')))
   = Inr (Some ''urn:li:dataPlatform:tableau'')
   \<and> ''urn:li:dataPlatform:tableau'' \<noteq> sample_urn PLATFORM_NAME"
  by (simp add: run_defs)

text \<open>
  Claim C7, amended. A \<open>platform_urn\<close> in the raw mapping is not rejected: adding a
  string for it to a raw mapping that constructs gives a raw mapping that constructs. The
  result holds the supplied string; when \<open>platform_urn\<close> is absent from the raw mapping the
  result holds the value derived from the fixed platform name.
\<close>

theorem platform_urn_as_supplied:
  assumes "validate_model mk raw = Inr config"
  shows "(\<forall>s. raw ''platform_urn'' = Some (RStr s) \<longrightarrow> platform_urn config = Some s)
         \<and> (raw ''platform_urn'' = None \<longrightarrow> platform_urn config = Some (mk PLATFORM_NAME))
         \<and> (\<forall>s. \<exists>config'. validate_model mk (raw(''platform_urn'' \<mapsto> RStr s)) = Inr config')"
proof -
  from assms have config: "config = workspace_id_backward_compatibility (validated_values mk raw)"
    and errs: "validation_errors mk raw = []"
    and guard: "raise_error_for_dataset_type_mapping raw = Inr raw"
    by (simp_all add: validate_model_Inr_iff)
  have u: "platform_urn config =
      snd (validate_field raw ''platform_urn'' str_validator (Some (mk PLATFORM_NAME)))"
    by (simp add: config workspace_id_backward_compatibility_def Let_def validated_values_def)
  have a: "\<forall>s. raw ''platform_urn'' = Some (RStr s) \<longrightarrow> platform_urn config = Some s"
    by (simp add: u validate_field_def)
  have b: "raw ''platform_urn'' = None \<longrightarrow> platform_urn config = Some (mk PLATFORM_NAME)"
    by (simp add: u validate_field_def)
  have c: "\<exists>config'. validate_model mk (raw(''platform_urn'' \<mapsto> RStr s)) = Inr config'" for s
  proof -
    have "raise_error_for_dataset_type_mapping (raw(''platform_urn'' \<mapsto> RStr s))
        = Inr (raw(''platform_urn'' \<mapsto> RStr s))"
      using guard by (simp add: raise_error_for_dataset_type_mapping_def raw_get_def split: if_splits)
    moreover have "validation_errors mk (raw(''platform_urn'' \<mapsto> RStr s)) = []"
      using errs by (simp add: validation_errors_def validate_field_def)
    ultimately show ?thesis by (simp add: validate_model_Inr_iff)
  qed
  from a b c show ?thesis by blast
qed

text \<open>
  C7 on concrete inputs: a raw mapping with a platform urn and one without.
\<close>

theorem platform_urn_as_supplied_witness:
  "validate_model sample_urn ((required_only ''t'' ''c'' ''s'')(''platform_urn'' \<mapsto> RStr ''urn:li:dataPlatform:tableau''))
     = Inr (workspace_id_backward_compatibility (validated_values sample_urn
          ((required_only ''t'' ''c'' ''s'')(''platform_urn'' \<mapsto> RStr ''urn:li:dataPlatform:tableau''))))
   \<and> platform_urn (workspace_id_backward_compatibility (validated_values sample_urn
          ((required_only ''t'' ''c'' ''s'')(''platform_urn'' \<mapsto> RStr ''urn:li:dataPlatform:tableau''))))
       = Some ''urn:li:dataPlatform:tableau''
   \<and> validate_model sample_urn (required_only ''t'' ''c'' ''s'')
     = Inr (workspace_id_backward_compatibility (validated_values sample_urn (required_only ''t'' ''c'' ''s'')))
   \<and> platform_urn (workspace_id_backward_compatibility (validated_values sample_urn
          (required_only ''t'' ''c'' ''s''))) = Some (sample_urn PLATFORM_NAME)"
proof -
  have h1: "validate_model sample_urn ((required_only ''t'' ''c'' ''s'')(''platform_urn'' \<mapsto> RStr ''urn:li:dataPlatform:tableau''))
     = Inr (workspace_id_backward_compatibility (validated_values sample_urn
          ((required_only ''t'' ''c'' ''s'')(''platform_urn'' \<mapsto> RStr ''urn:li:dataPlatform:tableau''))))"
    by (simp add: run_defs)
  have h2: "validate_model sample_urn (required_only ''t'' ''c'' ''s'')
     = Inr (workspace_id_backward_compatibility (validated_values sample_urn (required_only ''t'' ''c'' ''s'')))"
    by (simp add: run_defs)
  have a: "((required_only ''t'' ''c'' ''s'')(''platform_urn'' \<mapsto> RStr ''urn:li:dataPlatform:tableau''))
      ''platform_urn'' = Some (RStr ''urn:li:dataPlatform:tableau'')"
    by simp
  have b: "required_only ''t'' ''c'' ''s'' ''platform_urn'' = None"
    by (simp add: required_only_def)
  show ?thesis using h1 h2 a b platform_urn_as_supplied [OF h1] platform_urn_as_supplied [OF h2] by blast
qed

subsection \<open>C8: the defaults of a construction from the required fields\<close>

text \<open>
  Claim C8. The construction from a raw mapping that supplies only \<open>tenant_id\<close>,
  \<open>client_id\<close> and \<open>client_secret\<close> succeeds, with \<open>extract_ownership\<close> false,
  \<open>extract_reports\<close> true, \<open>extract_lineage\<close> true, \<open>extract_endorsements_to_tags\<close>
  false, \<open>extract_workspaces_to_containers\<close> true, \<open>native_query_parsing\<close> true,
  \<open>convert_urns_to_lowercase\<close> false, \<open>convert_lineage_urns_to_lowercase\<close> true,
  \<open>admin_apis_only\<close> false and \<open>scan_timeout\<close> 60.
\<close>

theorem default_construction:
  "\<exists>config. validate_model mk (required_only t c s) = Inr config
     \<and> extract_ownership config = Some False
     \<and> extract_reports config = Some True
     \<and> extract_lineage config = Some True
     \<and> extract_endorsements_to_tags config = Some False
     \<and> extract_workspaces_to_containers config = Some True
     \<and> native_query_parsing config = Some True
     \<and> convert_urns_to_lowercase config = Some False
     \<and> convert_lineage_urns_to_lowercase config = Some True
     \<and> admin_apis_only config = Some False
     \<and> scan_timeout config = Some 60"
  by (simp add: construction_defs)

subsection \<open>C9: a required field that is missing\<close>

text \<open>
  Claim C9. For each of \<open>tenant_id\<close>, \<open>client_id\<close> and \<open>client_secret\<close>: removing the
  field from a raw mapping that constructs gives a raw mapping whose construction fails
  with exactly one error, the missing-field error located at that field; and no raw mapping
  without the field yields a configuration, whatever its other fields are.
\<close>

theorem missing_required_field:
  assumes "name \<in> {''tenant_id'', ''client_id'', ''client_secret''}"
    and "validate_model mk (raw(name \<mapsto> v)) = Inr config"
  shows "validate_model mk (raw(name := None)) = Inl (ValidationError [(name, MissingError)])
         \<and> (\<forall>raw'. raw' name = None \<longrightarrow>
               (\<exists>errors. validate_model mk raw' = Inl (ValidationError errors)))"
proof
  from assms(2) have guard: "raise_error_for_dataset_type_mapping (raw(name \<mapsto> v)) = Inr (raw(name \<mapsto> v))"
    and errs: "validation_errors mk (raw(name \<mapsto> v)) = []"
    by (simp_all add: validate_model_Inr_iff)
  from assms(1) have n: "name \<noteq> ''dataset_type_mapping''" "name \<noteq> ''server_to_platform_instance''"
    by auto
  have g: "raise_error_for_dataset_type_mapping (raw(name := None)) = Inr (raw(name := None))"
    by (rule guard_upd_other [OF n guard])
  have e: "validation_errors mk (raw(name := None)) = [(name, MissingError)]"
    using assms(1) errs missing_tenant_id missing_client_id missing_client_secret by blast
  show "validate_model mk (raw(name := None)) = Inl (ValidationError [(name, MissingError)])"
    by (simp add: validate_model_def pre_root_validators_eq g e)
  show "\<forall>raw'. raw' name = None \<longrightarrow>
               (\<exists>errors. validate_model mk raw' = Inl (ValidationError errors))"
  proof (intro allI impI)
    fix raw' :: raw_mapping
    assume "raw' name = None"
    with assms(1) have "(name, MissingError) \<in> set (validation_errors mk raw')"
      by (rule required_absent_errors)
    then have "validation_errors mk raw' \<noteq> []" by auto
    then show "\<exists>errors. validate_model mk raw' = Inl (ValidationError errors)"
      by (rule validate_model_fails)
  qed
qed

text \<open>
  C9 on a concrete input: the raw mapping of the required fields, without \<open>tenant_id\<close>.
\<close>

theorem missing_required_field_witness:
  "''tenant_id'' \<in> {''tenant_id'', ''client_id'', ''client_secret''}
   \<and> validate_model sample_urn ((required_only ''t'' ''c'' ''s'')(''tenant_id'' \<mapsto> RStr ''t''))
     = Inr (workspace_id_backward_compatibility (validated_values sample_urn
          ((required_only ''t'' ''c'' ''s'')(''tenant_id'' \<mapsto> RStr ''t''))))
   \<and> validate_model sample_urn ((required_only ''t'' ''c'' ''s'')(''tenant_id'' := None))
     = Inl (ValidationError [(''tenant_id'', MissingError)])"
proof -
  have n: "''tenant_id'' \<in> {''tenant_id'', ''client_id'', ''client_secret''}" by simp
  have h: "validate_model sample_urn ((required_only ''t'' ''c'' ''s'')(''tenant_id'' \<mapsto> RStr ''t''))
     = Inr (workspace_id_backward_compatibility (validated_values sample_urn
          ((required_only ''t'' ''c'' ''s'')(''tenant_id'' \<mapsto> RStr ''t''))))"
    by (simp add: run_defs)
  show ?thesis using n h missing_required_field [OF n h] by blast
qed

subsection \<open>C10: the renamed key replaces an entry that is already there\<close>

text \<open>
  Claim C10. When the mapping handed to \<open>map_data_platform\<close> holds both \<open>PostgreSql\<close>
  (with value \<open>v1\<close>) and \<open>PostgreSQL\<close> (with value \<open>v2\<close>), the result holds
  \<open>PostgreSQL\<close> with value \<open>v1\<close>, and \<open>PostgreSql\<close> no more.
\<close>

theorem legacy_key_overwrites:
  assumes "map_of value ''PostgreSql'' = Some v1" and "map_of value ''PostgreSQL'' = Some v2"
  shows "map_of (map_data_platform value) ''PostgreSQL'' = Some v1
         \<and> map_of (map_data_platform value) ''PostgreSql'' = None"
  using assms by (simp add: map_of_map_data_platform)

text \<open>
  C10 on a concrete input: a mapping with both spellings of the key.
\<close>

theorem legacy_key_overwrites_witness:
  "map_of [(''PostgreSql'', ''a''), (''PostgreSQL'', ''b'')] ''PostgreSql'' = Some ''a''
   \<and> map_of [(''PostgreSql'', ''a''), (''PostgreSQL'', ''b'')] ''PostgreSQL'' = Some ''b''
   \<and> map_of (map_data_platform [(''PostgreSql'', ''a''), (''PostgreSQL'', ''b'')]) ''PostgreSQL'' = Some ''a''
   \<and> map_of (map_data_platform [(''PostgreSql'', ''a''), (''PostgreSQL'', ''b'')]) ''PostgreSql'' = None"
proof -
  have a: "map_of [(''PostgreSql'', ''a''), (''PostgreSQL'', ''b'')] ''PostgreSql'' = Some ''a''" by simp
  have b: "map_of [(''PostgreSql'', ''a''), (''PostgreSQL'', ''b'')] ''PostgreSQL'' = Some ''b''" by simp
  show ?thesis using a b legacy_key_overwrites [OF a b] by blast
qed

end
